theory Spec2Isabelle
  imports Main "HOL-Library.Word"
begin

section \<open>Values crossing the panel's boundary\<close>

text \<open>
  A value thrown in JavaScript is either an \<open>Error\<close> instance (with its \<open>name\<close> and
  \<open>message\<close>) or some other value, of which only the \<open>String(e)\<close> rendering is observed.
\<close>

datatype jsval = ErrorObj string string | OtherVal string

text \<open>\<^verbatim>\<open>e instanceof Error ? e.message : String(e)\<close>, as both catch blocks of the panel write it.\<close>

fun describe :: "jsval \<Rightarrow> string" where
  "describe (ErrorObj n m) = m"
| "describe (OtherVal s) = s"

text \<open>\<^verbatim>\<open>'...' + e\<close>: string conversion, \<open>Error.prototype.toString\<close> for an error object.\<close>

fun toString :: "jsval \<Rightarrow> string" where
  "toString (ErrorObj n m) = (if n = [] then m else if m = [] then n else n @ '': '' @ m)"
| "toString (OtherVal s) = s"

text \<open>\<open>SyncPolarity\<close> of \<^verbatim>\<open>./sim/vga\<close>, with the two fields the panel initialises.\<close>

record SyncPolarity =
  hsyncActiveLow :: bool
  vsyncActiveLow :: bool

text \<open>
  The messages posted to the webview. The source posts the frame's bytes in base64; the
  encoding is injective and is not modelled, the message carries the bytes.
\<close>

datatype webview_message =
    StatusMsg string
  | ErrorMsg string
  | FrameMsg nat nat "8 word list"

text \<open>
  Everything the panel does to the outside world, in the order it happens: messages
  posted, warnings shown, calls into the simulation kernel (each with the module reference
  it is given, \<open>None\<close> for \<open>null\<close>), timers scheduled. A module reference is the number of
  the \<^verbatim>\<open>new HDLModuleWASM\<close> that created the object. \<open>'d\<close> is \<open>HDLModuleDef\<close>.
\<close>

datatype 'd effect =
    PostMessage webview_message
  | ShowWarningMessage string
  | NewModule nat "'d option" "'d option"
  | NewModuleThrew "'d option" "'d option"
  | ModInit "nat option"
  | ModDispose "nat option"
  | ResetModule "nat option"
  | DetectSyncPolarity "nat option" "SyncPolarity option"
  | SkipToFrameBoundary "nat option" SyncPolarity
  | RenderVGAFrame "nat option" SyncPolarity
  | SetImmediate
  | PanelDispose
  | Uncaught jsval

text \<open>\<open>process.exit\<close> is either Node's own or the throwing replacement of \<open>compileSources\<close>.\<close>

datatype exit_fn = OriginalExit | InterceptExit

text \<open>
  An \<^verbatim>\<open>async\<close> function suspended at an \<^verbatim>\<open>await\<close>: \<open>compileSources\<close> waits for
  \<open>compileVerilator\<close>, or (inside \<open>initModule\<close>) for \<open>mod.init()\<close>. Its local
  \<open>originalExit\<close> is what the \<^verbatim>\<open>finally\<close> block will restore.
\<close>

datatype cont = AwaitCompile exit_fn | AwaitInit exit_fn

text \<open>
  The constants and conversions the panel imports: \<open>VGA_WIDTH\<close> and \<open>VGA_HEIGHT\<close> come
  from \<^verbatim>\<open>./sim/vga\<close>, which is outside the sources read here, and \<open>num_str\<close> is the
  number-to-string conversion of template literals.
\<close>

record env =
  VGA_WIDTH :: nat
  VGA_HEIGHT :: nat
  num_str :: "int \<Rightarrow> string"

section \<open>The panel\<close>

text \<open>
  The fields of \<open>VGASimulatorPanel\<close> (\<open>mod\<close>, \<open>running\<close>, \<open>syncPolarity\<close>, the static
  \<open>currentPanel\<close>) and the part of the host it acts on: \<open>process.exit\<close>, the suspended
  continuations, the number of \<open>setImmediate\<close> callbacks not yet run, the allocation counter
  of module objects, and the trace of effects, newest first.
\<close>

record 'd panel =
  mod_ref :: "nat option"
  running :: bool
  syncPolarity :: SyncPolarity
  currentPanel :: bool
  exit_hook :: exit_fn
  pending :: "cont list"
  immediates :: nat
  next_ref :: nat
  trace :: "'d effect list"
  host_exited :: bool

text \<open>The panel as \<open>createOrShow\<close> leaves it (lines 24--26 and 45).\<close>

definition initial_panel :: "'d panel" where
  "initial_panel =
     \<lparr>mod_ref = None, running = False,
      syncPolarity = \<lparr>hsyncActiveLow = False, vsyncActiveLow = False\<rparr>,
      currentPanel = True, exit_hook = OriginalExit, pending = [], immediates = 0,
      next_ref = 0, trace = [], host_exited = False\<rparr>"

definition emit :: "'d effect \<Rightarrow> 'd panel \<Rightarrow> 'd panel" where
  "emit e s = s\<lparr>trace := e # trace s\<rparr>"

subsection \<open>Rendering\<close>

text \<open>
  \<open>renderVGAFrame(mod, pixels, opts)\<close> is not among the sources. A call is given by what
  it does to the buffer it receives, the writes \<open>pixels[i] = v\<close> in order, and by
  whether it then throws. A \<open>Uint8Array\<close> has a fixed length and ignores a write beyond
  its end, which is what list update does.
\<close>

record render_outcome =
  rv_writes :: "(nat \<times> 8 word) list"
  rv_thrown :: "jsval option"

fun apply_writes :: "(nat \<times> 8 word) list \<Rightarrow> 8 word list \<Rightarrow> 8 word list" where
  "apply_writes [] buf = buf"
| "apply_writes ((i, v) # ws) buf = apply_writes ws (buf[i := v])"

definition stopSimulation :: "'d panel \<Rightarrow> 'd panel" where
  "stopSimulation s = s\<lparr>running := False\<rparr>"

text \<open>
  \<open>renderLoop\<close> (lines 159--192). The buffer is allocated zeroed; on a throw the error is
  posted and the loop stops; otherwise the buffer is posted and the next round is
  scheduled with \<open>setImmediate\<close>.
\<close>

definition renderLoop :: "env \<Rightarrow> render_outcome \<Rightarrow> 'd panel \<Rightarrow> 'd panel" where
  "renderLoop E ro s =
     (if \<not> running s \<or> mod_ref s = None then s
      else
        let pixels = replicate (VGA_WIDTH E * VGA_HEIGHT E * 4) (0 :: 8 word);
            s1 = emit (RenderVGAFrame (mod_ref s) (syncPolarity s)) s;
            pixels1 = apply_writes (rv_writes ro) pixels
        in case rv_thrown ro of
             Some e \<Rightarrow>
               (emit (PostMessage (ErrorMsg (''Simulation error: '' @ describe e))) s1)
                 \<lparr>running := False\<rparr>
           | None \<Rightarrow>
               let s2 = emit (PostMessage (FrameMsg (VGA_WIDTH E) (VGA_HEIGHT E) pixels1)) s1
               in if running s2
                  then (emit SetImmediate s2)\<lparr>immediates := immediates s2 + 1\<rparr>
                  else s2)"

definition startSimulation :: "env \<Rightarrow> render_outcome \<Rightarrow> 'd panel \<Rightarrow> 'd panel" where
  "startSimulation E ro s =
     (if mod_ref s = None \<or> running s then s
      else renderLoop E ro (s\<lparr>running := True\<rparr>))"

subsection \<open>The four kernel calls after a module is bound or reset\<close>

text \<open>
  \<open>resetModule\<close>, \<open>detectSyncPolarity\<close> and \<open>skipToFrameBoundary\<close> are imported from
  \<^verbatim>\<open>./sim/vga\<close>. Each call is given by its outcome: \<open>Inl e\<close> when it throws \<open>e\<close>,
  \<open>Inr v\<close> when it returns \<open>v\<close>.
\<close>

record kernel_outcome =
  ko_reset1 :: "jsval + unit"
  ko_detect :: "jsval + SyncPolarity"
  ko_reset2 :: "jsval + unit"
  ko_skip :: "jsval + unit"

text \<open>
  The sequence written twice in the source, at lines 65--68 (the \<open>reset\<close> message) and
  141--144 (\<open>initModule\<close>): it reads \<open>this.mod\<close> at each call, assigns
  \<open>this.syncPolarity\<close> when the detection returns, and stops at the first throw. The
  result is the state reached and the value thrown, if any.
\<close>

definition resetDetectSkip :: "kernel_outcome \<Rightarrow> 'd panel \<Rightarrow> 'd panel \<times> jsval option" where
  "resetDetectSkip ko s =
     (let s1 = emit (ResetModule (mod_ref s)) s in
      case ko_reset1 ko of
        Inl e \<Rightarrow> (s1, Some e)
      | Inr _ \<Rightarrow>
         (case ko_detect ko of
            Inl e \<Rightarrow> (emit (DetectSyncPolarity (mod_ref s1) None) s1, Some e)
          | Inr pol \<Rightarrow>
             (let s2 = (emit (DetectSyncPolarity (mod_ref s1) (Some pol)) s1)
                         \<lparr>syncPolarity := pol\<rparr>;
                  s3 = emit (ResetModule (mod_ref s2)) s2
              in case ko_reset2 ko of
                   Inl e \<Rightarrow> (s3, Some e)
                 | Inr _ \<Rightarrow>
                    (let s4 = emit (SkipToFrameBoundary (mod_ref s3) (syncPolarity s3)) s3
                     in case ko_skip ko of
                          Inl e \<Rightarrow> (s4, Some e)
                        | Inr _ \<Rightarrow> (s4, None)))))"

text \<open>The \<open>reset\<close> message (lines 63--70); a throw leaves the handler uncaught.\<close>

definition onReset :: "kernel_outcome \<Rightarrow> 'd panel \<Rightarrow> 'd panel" where
  "onReset ko s =
     (if mod_ref s = None then s
      else case resetDetectSkip ko s of
             (s1, Some e) \<Rightarrow> emit (Uncaught e) s1
           | (s1, None) \<Rightarrow> s1)"

text \<open>\<open>dispose\<close> (lines 194--211); \<open>mod.dispose()\<close> is taken not to throw.\<close>

definition dispose :: "'d panel \<Rightarrow> 'd panel" where
  "dispose s =
     (let s1 = s\<lparr>currentPanel := False, running := False\<rparr>;
          s2 = (case mod_ref s1 of
                  Some r \<Rightarrow> (emit (ModDispose (Some r)) s1)\<lparr>mod_ref := None\<rparr>
                | None \<Rightarrow> s1)
      in emit PanelDispose s2)"

section \<open>compileVerilator\<close>

text \<open>An entry of \<open>errorParser.errors\<close>.\<close>

record diag =
  etype :: string
  efile :: string
  line :: int
  column :: int
  message :: string

text \<open>
  What the parts of \<open>compileVerilator\<close> that are not among the sources do in one call:
  whether anything before \<open>callMain\<close> throws (reading and instantiating the WASM binary,
  writing the sources into its file system), the entries \<open>ErrorParser\<close> has collected
  from standard error when \<open>callMain\<close> ends, how \<open>callMain\<close> ends, and what reading and
  parsing the XML gives (the parser's \<open>modules\<close>, or a throw).
\<close>

datatype main_outcome = MainReturns | MainThrows jsval | MainExits "int option"

record 'd verilator_outcome =
  vo_setup :: "jsval option"
  vo_stderr :: "diag list"
  vo_main :: main_outcome
  vo_xml :: "jsval + (string \<rightharpoonup> 'd)"

record 'd compile_result =
  errors :: "diag list"
  output_modules :: "(string \<rightharpoonup> 'd) option"

text \<open>How an \<^verbatim>\<open>async\<close> call ends; the host process may also end under it.\<close>

datatype 'a settled = HostTerminated | Rejected jsval | Resolved 'a

text \<open>
  \<open>verilatorInst.callMain(args)\<close> under the current \<open>process.exit\<close>. With the replacement
  of lines 87--89 installed, a call of \<open>process.exit(code)\<close> throws out of \<open>callMain\<close>;
  with Node's own, the host ends (\<open>None\<close>).
\<close>

definition callMain :: "env \<Rightarrow> exit_fn \<Rightarrow> main_outcome \<Rightarrow> jsval option option" where
  "callMain E hook mo =
     (case mo of
        MainReturns \<Rightarrow> Some None
      | MainThrows e \<Rightarrow> Some (Some e)
      | MainExits code \<Rightarrow>
         (case hook of
            OriginalExit \<Rightarrow> None
          | InterceptExit \<Rightarrow>
              Some (Some (ErrorObj ''Error''
                (''Verilator process.exit(''
                   @ (case code of None \<Rightarrow> ''undefined'' | Some c \<Rightarrow> num_str E c)
                   @ '')'')))))"

definition error_entry :: "string \<Rightarrow> diag" where
  "error_entry msg = \<lparr>etype = ''error'', efile = [], line = 1, column = 1, message = msg\<rparr>"

definition error_kind :: "diag list \<Rightarrow> diag list" where
  "error_kind ds = filter (\<lambda>e. etype e = ''error'') ds"

definition compileVerilator ::
  "env \<Rightarrow> exit_fn \<Rightarrow> 'd verilator_outcome \<Rightarrow> 'd compile_result settled" where
  "compileVerilator E hook vo =
     (case vo_setup vo of
        Some e \<Rightarrow> Rejected e
      | None \<Rightarrow>
         (case callMain E hook (vo_main vo) of
            None \<Rightarrow> HostTerminated
          | Some thrown \<Rightarrow>
             (let errs = vo_stderr vo @
                    (case thrown of
                       Some e \<Rightarrow> [error_entry (''Compilation failed: '' @ toString e)]
                     | None \<Rightarrow> [])
              in if length (error_kind errs) \<noteq> 0
                 then Resolved \<lparr>errors = errs, output_modules = None\<rparr>
                 else case vo_xml vo of
                        Inl e \<Rightarrow>
                          Resolved \<lparr>errors = errs @ [error_entry (''XML parsing failed: '' @ toString e)],
                                    output_modules = None\<rparr>
                      | Inr ms \<Rightarrow> Resolved \<lparr>errors = errs, output_modules = Some ms\<rparr>)))"

section \<open>compileSources and initModule\<close>

fun join :: "string \<Rightarrow> string list \<Rightarrow> string" where
  "join sep [] = []"
| "join sep [x] = x"
| "join sep (x # y # ys) = x @ sep @ join sep (y # ys)"

text \<open>Lines 95--101: the text of the error-kind entries, one per line.\<close>

definition errorMessages :: "env \<Rightarrow> diag list \<Rightarrow> string" where
  "errorMessages E ds =
     join [CHR 0x0A]
       (map (\<lambda>e. (if efile e \<noteq> []
                   then efile e @ '':'' @ num_str E (line e) @ '':'' @ num_str E (column e) @ '': ''
                   else []) @ message e)
            (error_kind ds))"

text \<open>The \<^verbatim>\<open>catch\<close> block (lines 120--124) and the \<^verbatim>\<open>finally\<close> block (line 126).\<close>

definition catch_block :: "jsval \<Rightarrow> 'd panel \<Rightarrow> 'd panel" where
  "catch_block e s = emit (PostMessage (ErrorMsg (''Error: '' @ describe e))) s"

definition finally_block :: "exit_fn \<Rightarrow> 'd panel \<Rightarrow> 'd panel" where
  "finally_block originalExit s = s\<lparr>exit_hook := originalExit\<rparr>"

definition drop_cont :: "nat \<Rightarrow> 'd panel \<Rightarrow> 'd panel" where
  "drop_cont i s = s\<lparr>pending := take i (pending s) @ drop (Suc i) (pending s)\<rparr>"

text \<open>
  \<open>compileSources\<close> up to its first \<^verbatim>\<open>await\<close> (lines 78--92). \<open>detectTopModule\<close> is
  outside the \<^verbatim>\<open>try\<close>: when it throws, the call is rejected before \<open>process.exit\<close> is
  replaced.
\<close>

definition compileSources_begin :: "jsval + string \<Rightarrow> 'd panel \<Rightarrow> 'd panel" where
  "compileSources_begin topModule s =
     (let s1 = emit (PostMessage (StatusMsg ''Compiling...'')) (stopSimulation s) in
      case topModule of
        Inl e \<Rightarrow> emit (Uncaught e) s1
      | Inr _ \<Rightarrow> s1\<lparr>exit_hook := InterceptExit,
                    pending := pending s1 @ [AwaitCompile (exit_hook s1)]\<rparr>)"

text \<open>
  \<open>initModule\<close> up to its \<^verbatim>\<open>await this.mod.init()\<close> (lines 130--138). \<open>ctor\<close> is what
  \<^verbatim>\<open>new HDLModuleWASM\<close> throws, if anything. An \<open>HDLModuleDef\<close> is an object, so the
  \<^verbatim>\<open>||\<close> of line 136 takes its right operand exactly when the left key is absent.
\<close>

definition initModule_begin ::
  "(string \<rightharpoonup> 'd) \<Rightarrow> jsval option \<Rightarrow> 'd panel \<Rightarrow> 'd panel \<times> jsval option" where
  "initModule_begin modules ctor s =
     (let s1 = (case mod_ref s of
                  Some r \<Rightarrow> (emit (ModDispose (Some r)) s)\<lparr>mod_ref := None\<rparr>
                | None \<Rightarrow> s);
          constpool = (case modules ''@CONST-POOL@'' of
                         Some c \<Rightarrow> Some c
                       | None \<Rightarrow> modules ''__Vconst'')
      in case ctor of
           Some e \<Rightarrow> (emit (NewModuleThrew (modules ''TOP'') constpool) s1, Some e)
         | None \<Rightarrow>
            (let r = next_ref s1;
                 s2 = (emit (NewModule r (modules ''TOP'') constpool) s1)
                        \<lparr>next_ref := Suc r, mod_ref := Some r\<rparr>
             in (emit (ModInit (mod_ref s2)) s2, None)))"

text \<open>
  \<open>compileSources\<close> from the moment \<open>compileVerilator\<close> settles to the next suspension
  or the end (lines 92--117, 120--127, and \<open>initModule\<close> up to its \<^verbatim>\<open>await\<close>). \<open>i\<close>
  is the place of the suspended call among the pending ones. \<open>callMain\<close> runs in the
  same turn of the event loop as this continuation, so it sees the \<open>process.exit\<close> of the
  state it resumes in.
\<close>

definition compileSources_compiled ::
  "env \<Rightarrow> nat \<Rightarrow> 'd verilator_outcome \<Rightarrow> jsval option \<Rightarrow> 'd panel \<Rightarrow> 'd panel" where
  "compileSources_compiled E i vo ctor s =
     (if i < length (pending s) then
        (case pending s ! i of
           AwaitInit _ \<Rightarrow> s
         | AwaitCompile originalExit \<Rightarrow>
            (case compileVerilator E (exit_hook s) vo of
               HostTerminated \<Rightarrow> s\<lparr>host_exited := True\<rparr>
             | Rejected e \<Rightarrow> finally_block originalExit (catch_block e (drop_cont i s))
             | Resolved res \<Rightarrow>
                (case output_modules res of
                   None \<Rightarrow>
                     finally_block originalExit
                       (emit (PostMessage (ErrorMsg
                          (''Compilation Error:'' @ [CHR 0x0A] @ errorMessages E (errors res))))
                          (drop_cont i s))
                 | Some modules \<Rightarrow>
                    (let warnings = filter (\<lambda>e. etype e = ''warning'') (errors res);
                         s1 = (if length warnings > 0
                               then emit (ShowWarningMessage
                                      (''Verilator: '' @ num_str E (int (length warnings))
                                         @ '' warning(s)'')) s
                               else s)
                     in case initModule_begin modules ctor s1 of
                          (s2, Some e) \<Rightarrow>
                            finally_block originalExit (catch_block e (drop_cont i s2))
                        | (s2, None) \<Rightarrow>
                            s2\<lparr>pending := (pending s2)[i := AwaitInit originalExit]\<rparr>))))
      else s)"

text \<open>
  \<open>compileSources\<close> from the moment \<open>mod.init()\<close> settles to the end (lines 138--145,
  118--127): \<open>ir\<close> is the rejection of \<open>init\<close>, if any. \<open>startSimulation\<close> renders the
  first frame inside this call.
\<close>

definition compileSources_initialised ::
  "env \<Rightarrow> nat \<Rightarrow> jsval option \<Rightarrow> kernel_outcome \<Rightarrow> render_outcome \<Rightarrow> 'd panel \<Rightarrow> 'd panel" where
  "compileSources_initialised E i ir ko ro s =
     (if i < length (pending s) then
        (case pending s ! i of
           AwaitCompile _ \<Rightarrow> s
         | AwaitInit originalExit \<Rightarrow>
            (let s0 = drop_cont i s in
             case ir of
               Some e \<Rightarrow> finally_block originalExit (catch_block e s0)
             | None \<Rightarrow>
                (case resetDetectSkip ko s0 of
                   (s1, Some e) \<Rightarrow> finally_block originalExit (catch_block e s1)
                 | (s1, None) \<Rightarrow>
                     finally_block originalExit
                       (startSimulation E ro (emit (PostMessage (StatusMsg ''Running'')) s1)))))
      else s)"

text \<open>One call of \<open>compileSources\<close> with nothing else running between its parts.\<close>

definition compileSources ::
  "env \<Rightarrow> jsval + string \<Rightarrow> 'd verilator_outcome \<Rightarrow> jsval option \<Rightarrow> jsval option \<Rightarrow>
   kernel_outcome \<Rightarrow> render_outcome \<Rightarrow> 'd panel \<Rightarrow> 'd panel" where
  "compileSources E topModule vo ctor ir ko ro s =
     (let i = length (pending s) in
      compileSources_initialised E i ir ko ro
        (compileSources_compiled E i vo ctor (compileSources_begin topModule s)))"

section \<open>The panel under the event loop\<close>

text \<open>
  Between two suspensions the host runs one piece of the panel's code to its end. An
  event is what starts such a piece, with the outcomes of the calls it makes outside the
  sources: the command \<open>verilogvga.simulate\<close> calling \<open>compileSources\<close>, a suspended
  \<open>compileSources\<close> resuming, a \<open>setImmediate\<close> callback, a message of the webview, the
  panel being closed.
\<close>

datatype 'd event =
    Simulate "jsval + string"
  | CompileDone nat "'d verilator_outcome" "jsval option"
  | InitDone nat "jsval option" kernel_outcome render_outcome
  | Tick render_outcome
  | MsgStop
  | MsgReset kernel_outcome
  | PanelClosed

definition tick :: "env \<Rightarrow> render_outcome \<Rightarrow> 'd panel \<Rightarrow> 'd panel" where
  "tick E ro s =
     (if immediates s = 0 then s
      else renderLoop E ro (s\<lparr>immediates := immediates s - 1\<rparr>))"

fun handle :: "env \<Rightarrow> 'd event \<Rightarrow> 'd panel \<Rightarrow> 'd panel" where
  "handle E (Simulate topModule) s = compileSources_begin topModule s"
| "handle E (CompileDone i vo ctor) s = compileSources_compiled E i vo ctor s"
| "handle E (InitDone i ir ko ro) s = compileSources_initialised E i ir ko ro s"
| "handle E (Tick ro) s = tick E ro s"
| "handle E MsgStop s = stopSimulation s"
| "handle E (MsgReset ko) s = onReset ko s"
| "handle E PanelClosed s = dispose s"

definition step :: "env \<Rightarrow> 'd event \<Rightarrow> 'd panel \<Rightarrow> 'd panel" where
  "step E ev s = (if host_exited s then s else handle E ev s)"

fun run :: "env \<Rightarrow> 'd event list \<Rightarrow> 'd panel \<Rightarrow> 'd panel" where
  "run E [] s = s"
| "run E (ev # evs) s = run E evs (step E ev s)"

section \<open>Reading a trace\<close>

text \<open>The module reference a kernel call is given.\<close>

fun target :: "'d effect \<Rightarrow> nat option" where
  "target (ModInit t) = t"
| "target (ModDispose t) = t"
| "target (ResetModule t) = t"
| "target (DetectSyncPolarity t r) = t"
| "target (SkipToFrameBoundary t p) = t"
| "target (RenderVGAFrame t p) = t"
| "target e = None"

text \<open>The modules ever constructed, and those constructed and not yet disposed.\<close>

fun created :: "'d effect list \<Rightarrow> nat set" where
  "created [] = {}"
| "created (NewModule r tp cp # es) = insert r (created es)"
| "created (e # es) = created es"

fun live :: "'d effect list \<Rightarrow> nat set" where
  "live [] = {}"
| "live (NewModule r tp cp # es) = insert r (live es)"
| "live (ModDispose (Some r) # es) = live es - {r}"
| "live (e # es) = live es"

text \<open>
  An effect is in order after the trace \<open>es\<close> when a construction finds no live module
  and makes a new reference, and a kernel call on a module finds that module live (so
  neither disposed nor replaced).
\<close>

fun acts_ok :: "'d effect list \<Rightarrow> 'd effect \<Rightarrow> bool" where
  "acts_ok es (NewModule r tp cp) = (live es = {} \<and> r \<notin> created es)"
| "acts_ok es e = (case target e of None \<Rightarrow> True | Some r \<Rightarrow> r \<in> live es)"

fun ok_trace :: "'d effect list \<Rightarrow> bool" where
  "ok_trace [] = True"
| "ok_trace (e # es) = (acts_ok es e \<and> ok_trace es)"

text \<open>At most one module is live after every prefix (in time) of the trace.\<close>

fun one_live :: "'d effect list \<Rightarrow> bool" where
  "one_live [] = True"
| "one_live (e # es) = (card (live (e # es)) \<le> 1 \<and> one_live es)"

text \<open>
  The polarity that the last returning \<open>detectSyncPolarity\<close> on a module gave, and the
  traces in which every \<open>renderVGAFrame\<close> is given the polarity detected on its module.
\<close>

fun detected :: "'d effect list \<Rightarrow> nat option \<Rightarrow> SyncPolarity option" where
  "detected [] t = None"
| "detected (DetectSyncPolarity t' (Some p) # es) t = (if t = t' then Some p else detected es t)"
| "detected (e # es) t = detected es t"

fun renders_established :: "'d effect list \<Rightarrow> bool" where
  "renders_established [] = True"
| "renders_established (RenderVGAFrame t p # es) =
     (detected es t = Some p \<and> renders_established es)"
| "renders_established (e # es) = renders_established es"

text \<open>
  The traces in which every \<open>renderVGAFrame\<close> is given a polarity that some earlier
  \<open>detectSyncPolarity\<close> returned, and the invariant that carries this along a run.
\<close>

fun ever_detected :: "'d effect list \<Rightarrow> SyncPolarity \<Rightarrow> bool" where
  "ever_detected [] p = False"
| "ever_detected (DetectSyncPolarity t (Some q) # es) p = (q = p \<or> ever_detected es p)"
| "ever_detected (e # es) p = ever_detected es p"

fun renders_detected :: "'d effect list \<Rightarrow> bool" where
  "renders_detected [] = True"
| "renders_detected (RenderVGAFrame t p # es) = (ever_detected es p \<and> renders_detected es)"
| "renders_detected (e # es) = renders_detected es"

definition K :: "'d panel \<Rightarrow> bool" where
  "K s = (renders_detected (trace s)
          \<and> (running s = False \<or> ever_detected (trace s) (syncPolarity s)))"

text \<open>
  Whether \<open>skipToFrameBoundary\<close> has been called on a module, and the traces in which
  every \<open>renderVGAFrame\<close> is on a module on which it has been.
\<close>

fun skipped :: "'d effect list \<Rightarrow> nat option \<Rightarrow> bool" where
  "skipped [] t = False"
| "skipped (SkipToFrameBoundary t' p # es) t = (t' = t \<or> skipped es t)"
| "skipped (e # es) t = skipped es t"

fun renders_synced :: "'d effect list \<Rightarrow> bool" where
  "renders_synced [] = True"
| "renders_synced (RenderVGAFrame t p # es) = (skipped es t \<and> renders_synced es)"
| "renders_synced (e # es) = renders_synced es"



fun renders :: "'d effect list \<Rightarrow> nat" where
  "renders [] = 0"
| "renders (RenderVGAFrame t p # es) = Suc (renders es)"
| "renders (e # es) = renders es"

fun uncaught :: "'d effect list \<Rightarrow> jsval list" where
  "uncaught [] = []"
| "uncaught (Uncaught e # es) = e # uncaught es"
| "uncaught (e # es) = uncaught es"

text \<open>The invariants of the panel that the proofs below carry along a run.\<close>

definition Inv :: "'d panel \<Rightarrow> bool" where
  "Inv s = (ok_trace (trace s) \<and> live (trace s) = set_option (mod_ref s)
            \<and> (\<forall>r \<in> created (trace s). r < next_ref s))"

definition J :: "'d panel \<Rightarrow> bool" where
  "J s = (renders_established (trace s) \<and> length (pending s) \<le> 1
          \<and> (pending s = [] \<or> running s = False)
          \<and> (running s = False \<or> detected (trace s) (mod_ref s) = Some (syncPolarity s)))"

definition S :: "'d panel \<Rightarrow> bool" where
  "S s = (renders_synced (trace s) \<and> length (pending s) \<le> 1
          \<and> (pending s = [] \<or> running s = False)
          \<and> (running s = False \<or> skipped (trace s) (mod_ref s)))"

section \<open>The simulation kernel, from its specification\<close>

text \<open>The error kinds of the kernel.\<close>

datatype kernel_error =
    LoadError | BindError | ConvergenceError | DetectionTimeout | RuntimeFault

subsection \<open>Simulation Instance\<close>

text \<open>
  Modelled from the spec: the Simulation Instance (\<open>HDLModuleWASM\<close> of
  \<^verbatim>\<open>./sim/hdlwasm\<close>) is not among the sources. A signal has a declared bit width and a
  handle into the value table of the compiled executable; the instance holds the
  path-to-signal map of its \<open>ModuleDef\<close>, the current values, the settled flag and the
  cycle counter.
\<close>

datatype direction = Input | Output | Internal

record signal =
  width :: nat
  direction :: direction
  handle_of :: nat

record sim_instance =
  signals :: "string \<rightharpoonup> signal"
  vals :: "nat list"
  settled :: bool
  cycles :: nat

text \<open>
  Modelled from the spec: \<open>setSignal\<close> and \<open>getSignal\<close>. ``Writes are masked/truncated
  to that width; reads after a write return the masked value exactly.'' The spec names no
  error for a path that is not declared or not bound; the model gives \<open>None\<close> there.
\<close>

definition setSignal :: "string \<Rightarrow> nat \<Rightarrow> sim_instance \<Rightarrow> sim_instance option" where
  "setSignal p v inst =
     (case signals inst p of
        None \<Rightarrow> None
      | Some sg \<Rightarrow>
          if handle_of sg < length (vals inst)
          then Some (inst\<lparr>vals := (vals inst)[handle_of sg := v mod 2 ^ width sg],
                          settled := False\<rparr>)
          else None)"

definition getSignal :: "string \<Rightarrow> sim_instance \<Rightarrow> nat option" where
  "getSignal p inst =
     (case signals inst p of
        None \<Rightarrow> None
      | Some sg \<Rightarrow>
          if handle_of sg < length (vals inst) then Some (vals inst ! handle_of sg) else None)"

text \<open>
  Modelled from the spec: \<open>eval()\<close>. The compiled executable's combinational evaluation
  is one pass \<open>exec\<close> over the value table, \<open>None\<close> when it faults. \<open>settle\<close>
  ``repeatedly recomputes combinational outputs from current inputs until no output
  changes, bounded by an iteration cap; exceeding the cap yields \<open>ConvergenceError\<close>''; a
  fault becomes \<open>RuntimeFault\<close>.
\<close>

fun settle :: "nat \<Rightarrow> (nat list \<Rightarrow> nat list option) \<Rightarrow> nat list \<Rightarrow> kernel_error + nat list" where
  "settle 0 exec vs = Inl ConvergenceError"
| "settle (Suc n) exec vs =
     (case exec vs of
        None \<Rightarrow> Inl RuntimeFault
      | Some vs' \<Rightarrow> if vs' = vs then Inr vs else settle n exec vs')"

definition evalInst ::
  "nat \<Rightarrow> (nat list \<Rightarrow> nat list option) \<Rightarrow> sim_instance \<Rightarrow> kernel_error + sim_instance" where
  "evalInst cap exec inst =
     (case settle cap exec (vals inst) of
        Inl e \<Rightarrow> Inl e
      | Inr vs \<Rightarrow> Inr (inst\<lparr>vals := vs, settled := True\<rparr>))"

subsection \<open>Sync Polarity Detector\<close>

text \<open>
  Modelled from the spec: \<open>detectSyncPolarity\<close> of \<^verbatim>\<open>./sim/vga\<close> is not among the
  sources. It ``drives the bound Simulation Instance for a generous, bounded number of
  clock cycles, sampling the two synchronization signals each cycle'': \<open>cycle\<close> advances
  the instance by one clock cycle or fails, \<open>sync\<close> reads the levels of (hsync, vsync),
  and the cycle's timestamp is the sample's place in the list.
\<close>

fun sample_cycles ::
  "nat \<Rightarrow> ('i \<Rightarrow> kernel_error + 'i) \<Rightarrow> ('i \<Rightarrow> bool \<times> bool) \<Rightarrow> 'i
     \<Rightarrow> kernel_error + (bool \<times> bool) list" where
  "sample_cycles 0 cycle sync i = Inr []"
| "sample_cycles (Suc n) cycle sync i =
     (case cycle i of
        Inl e \<Rightarrow> Inl e
      | Inr i' \<Rightarrow>
         (case sample_cycles n cycle sync i' of
            Inl e \<Rightarrow> Inl e
          | Inr ss \<Rightarrow> Inr (sync i' # ss)))"

text \<open>A signal toggles in the samples when both levels are seen.\<close>

definition toggles :: "bool list \<Rightarrow> bool" where
  "toggles ls = (True \<in> set ls \<and> False \<in> set ls)"

text \<open>
  Modelled from the spec: ``the level that occupies short bursts [is] active and the
  level occupying long stretches [is] idle. Polarity is active-low if the brief-burst
  level is 0''. The brief level is the one seen in fewer samples.
\<close>

definition activeLow :: "bool list \<Rightarrow> bool" where
  "activeLow ls = (length (filter (\<lambda>l. \<not> l) ls) < length (filter (\<lambda>l. l) ls))"

text \<open>
  Modelled from the spec: ``No toggling observed within the cycle budget is a
  \<open>DetectionTimeout\<close>, not a default guess.'' A polarity is only returned when both
  signals have shown both levels.
\<close>

definition detectSyncPolarity ::
  "nat \<Rightarrow> ('i \<Rightarrow> kernel_error + 'i) \<Rightarrow> ('i \<Rightarrow> bool \<times> bool) \<Rightarrow> 'i
     \<Rightarrow> kernel_error + SyncPolarity" where
  "detectSyncPolarity budget cycle sync i =
     (case sample_cycles budget cycle sync i of
        Inl e \<Rightarrow> Inl e
      | Inr ss \<Rightarrow>
          if toggles (map fst ss) \<and> toggles (map snd ss)
          then Inr \<lparr>hsyncActiveLow = activeLow (map fst ss),
                    vsyncActiveLow = activeLow (map snd ss)\<rparr>
          else Inl DetectionTimeout)"

section \<open>Fixtures\<close>

text \<open>
  A small geometry and outcomes in which every outside call succeeds, for the concrete
  runs below: one complete session, and a second call of \<open>compileSources\<close> made while
  the first is still suspended.
\<close>

definition demo_env :: env where
  "demo_env = \<lparr>VGA_WIDTH = 2, VGA_HEIGHT = 1, num_str = (\<lambda>n. if n = 1 then ''1'' else ''0'')\<rparr>"

definition kernel_ok :: kernel_outcome where
  "kernel_ok = \<lparr>ko_reset1 = Inr (), ko_detect = Inr \<lparr>hsyncActiveLow = True, vsyncActiveLow = True\<rparr>,
                ko_reset2 = Inr (), ko_skip = Inr ()\<rparr>"

definition verilator_ok :: "unit verilator_outcome" where
  "verilator_ok = \<lparr>vo_setup = None, vo_stderr = [], vo_main = MainReturns,
                   vo_xml = Inr [''TOP'' \<mapsto> ()]\<rparr>"

definition render_ok :: render_outcome where
  "render_ok = \<lparr>rv_writes = [], rv_thrown = None\<rparr>"

definition first_session :: "unit event list" where
  "first_session = [Simulate (Inr ''top''), CompileDone 0 verilator_ok None,
                    InitDone 0 None kernel_ok render_ok]"


definition verilator_exits :: "unit verilator_outcome" where
  "verilator_exits = \<lparr>vo_setup = None, vo_stderr = [], vo_main = MainExits (Some 1),
                      vo_xml = Inr [''TOP'' \<mapsto> ()]\<rparr>"



definition kernel_timeout :: kernel_outcome where
  "kernel_timeout = \<lparr>ko_reset1 = Inr (), ko_detect = Inl (ErrorObj ''Error'' ''DetectionTimeout''),
                     ko_reset2 = Inr (), ko_skip = Inr ()\<rparr>"

definition demo_instance :: sim_instance where
  "demo_instance =
     \<lparr>signals = [''clk'' \<mapsto> \<lparr>width = 1, direction = Input, handle_of = 0\<rparr>,
                 ''rgb'' \<mapsto> \<lparr>width = 6, direction = Output, handle_of = 1\<rparr>],
      vals = [0, 0], settled = True, cycles = 0\<rparr>"

text \<open>A one-bit signal assigned its own negation: a combinational self-loop.\<close>

definition self_loop :: "nat list \<Rightarrow> nat list option" where
  "self_loop vs = (case vs of [] \<Rightarrow> Some [1] | v # r \<Rightarrow> Some ((1 - v) # r))"

section \<open>Properties\<close>

lemma length_apply_writes [simp]: "length (apply_writes ws buf) = length buf"
  by (induction ws buf rule: apply_writes.induct) simp_all

lemmas panel_defs =
  step_def compileSources_begin_def compileSources_compiled_def compileSources_initialised_def
  compileVerilator_def callMain_def error_kind_def initModule_begin_def resetDetectSkip_def
  startSimulation_def stopSimulation_def renderLoop_def tick_def onReset_def dispose_def
  emit_def catch_block_def finally_block_def drop_cont_def initial_panel_def Let_def
  demo_env_def kernel_ok_def verilator_ok_def render_ok_def first_session_def


subsection \<open>One round of the render loop\<close>

text \<open>
  C1. A call of \<open>renderLoop\<close> that renders (the loop is running and a module is bound)
  is atomic. Either \<open>renderVGAFrame\<close> returns, and then exactly one frame is posted:
  the whole buffer of exactly \<open>VGA_WIDTH * VGA_HEIGHT * 4\<close> bytes, holding every write
  of the finished call; or it throws, and then exactly one error is posted, the loop
  stops, and the buffer, however far it was filled, is posted nowhere.
\<close>

theorem renderLoop_atomic:
  assumes "running s" and "mod_ref s \<noteq> None"
  shows "(rv_thrown ro = None \<and>
          (\<exists>buf. length buf = VGA_WIDTH E * VGA_HEIGHT E * 4 \<and>
             buf = apply_writes (rv_writes ro) (replicate (VGA_WIDTH E * VGA_HEIGHT E * 4) 0) \<and>
             trace (renderLoop E ro s) =
               rev [RenderVGAFrame (mod_ref s) (syncPolarity s),
                    PostMessage (FrameMsg (VGA_WIDTH E) (VGA_HEIGHT E) buf),
                    SetImmediate] @ trace s))
       \<or> (\<exists>e. rv_thrown ro = Some e \<and>
             trace (renderLoop E ro s) =
               rev [RenderVGAFrame (mod_ref s) (syncPolarity s),
                    PostMessage (ErrorMsg (''Simulation error: '' @ describe e))] @ trace s \<and>
             running (renderLoop E ro s) = False)"
  using assms by (cases "rv_thrown ro") (simp_all add: renderLoop_def emit_def Let_def)

theorem renderLoop_atomic_witness:
  "running ((initial_panel :: unit panel)\<lparr>mod_ref := Some 0, running := True\<rparr>) \<and>
   mod_ref ((initial_panel :: unit panel)\<lparr>mod_ref := Some 0, running := True\<rparr>) \<noteq> None \<and>
   trace (renderLoop \<lparr>VGA_WIDTH = 2, VGA_HEIGHT = 1, num_str = (\<lambda>n. [])\<rparr>
            \<lparr>rv_writes = [(0, 255), (3, 255), (9, 7)], rv_thrown = None\<rparr>
            ((initial_panel :: unit panel)\<lparr>mod_ref := Some 0, running := True\<rparr>))
     = [SetImmediate, PostMessage (FrameMsg 2 1 [255, 0, 0, 255, 0, 0, 0, 0]),
        RenderVGAFrame (Some 0) \<lparr>hsyncActiveLow = False, vsyncActiveLow = False\<rparr>]"
  using renderLoop_atomic [of "(initial_panel :: unit panel)\<lparr>mod_ref := Some 0, running := True\<rparr>"
      "\<lparr>rv_writes = [(0, 255), (3, 255), (9, 7)], rv_thrown = None\<rparr>"
      "\<lparr>VGA_WIDTH = 2, VGA_HEIGHT = 1, num_str = (\<lambda>n. [])\<rparr>"]
  by (simp add: initial_panel_def eval_nat_numeral)

lemma renderLoop_cases:
  "renderLoop E ro s = s
   \<or> (\<exists>m. renderLoop E ro s =
         s\<lparr>trace := PostMessage m # RenderVGAFrame (mod_ref s) (syncPolarity s) # trace s,
           running := False\<rparr> \<and> rv_thrown ro \<noteq> None)
   \<or> (\<exists>m. renderLoop E ro s =
         s\<lparr>trace := SetImmediate # PostMessage m # RenderVGAFrame (mod_ref s) (syncPolarity s) # trace s,
           immediates := immediates s + 1\<rparr> \<and> rv_thrown ro = None \<and> running s)"
  by (cases "rv_thrown ro") (auto simp: renderLoop_def emit_def Let_def)

text \<open>
  C4. At most one frame render is in flight. \<open>startSimulation\<close> on a running panel
  changes nothing: it renders nothing and schedules nothing. A round of the loop calls
  \<open>renderVGAFrame\<close> at most once, and schedules the next round at most once, only as
  its last effect, after the call has returned without an error and its frame has been
  posted. A \<open>setImmediate\<close> callback consumes one scheduled round and schedules at most
  one, so the number of scheduled rounds does not grow. Every handler of the event loop
  runs to its end before the next one starts, so two calls of \<open>renderVGAFrame\<close> never
  overlap.
\<close>

theorem single_render_in_flight:
  "(running s \<longrightarrow> startSimulation E ro s = s) \<and>
   renders (trace (renderLoop E ro s)) \<le> renders (trace s) + 1 \<and>
   renders (trace (startSimulation E ro s)) \<le> renders (trace s) + 1 \<and>
   (immediates (renderLoop E ro s) = immediates s
    \<or> immediates (renderLoop E ro s) = immediates s + 1 \<and> rv_thrown ro = None \<and>
       (\<exists>m. trace (renderLoop E ro s) =
          SetImmediate # PostMessage m # RenderVGAFrame (mod_ref s) (syncPolarity s) # trace s)) \<and>
   immediates (tick E ro s) \<le> immediates s"
proof -
  have a: "running s \<longrightarrow> startSimulation E ro s = s"
    by (simp add: startSimulation_def)
  have b: "renders (trace (renderLoop E ro s')) \<le> renders (trace s') + 1" for s' :: "'a panel"
    using renderLoop_cases [of E ro s'] by auto
  have c: "renders (trace (startSimulation E ro s)) \<le> renders (trace s) + 1"
    using b [of "s\<lparr>running := True\<rparr>"] by (simp add: startSimulation_def)
  have d: "immediates (renderLoop E ro s) = immediates s
    \<or> immediates (renderLoop E ro s) = immediates s + 1 \<and> rv_thrown ro = None \<and>
       (\<exists>m. trace (renderLoop E ro s) =
          SetImmediate # PostMessage m # RenderVGAFrame (mod_ref s) (syncPolarity s) # trace s)"
    using renderLoop_cases [of E ro s] by auto
  have e: "immediates (tick E ro s) \<le> immediates s"
    using renderLoop_cases [of E ro "s\<lparr>immediates := immediates s - 1\<rparr>"]
    by (auto simp: tick_def)
  from a b c d e show ?thesis by blast
qed

theorem single_render_in_flight_witness:
  "running ((initial_panel :: unit panel)\<lparr>mod_ref := Some 0, running := True\<rparr>) \<and>
   startSimulation \<lparr>VGA_WIDTH = 2, VGA_HEIGHT = 1, num_str = (\<lambda>n. [])\<rparr>
     \<lparr>rv_writes = [], rv_thrown = None\<rparr>
     ((initial_panel :: unit panel)\<lparr>mod_ref := Some 0, running := True\<rparr>)
   = (initial_panel :: unit panel)\<lparr>mod_ref := Some 0, running := True\<rparr> \<and>
   immediates (tick \<lparr>VGA_WIDTH = 2, VGA_HEIGHT = 1, num_str = (\<lambda>n. [])\<rparr>
     \<lparr>rv_writes = [], rv_thrown = None\<rparr>
     ((initial_panel :: unit panel)\<lparr>mod_ref := Some 0, running := True, immediates := 1\<rparr>)) = 1"
  using single_render_in_flight [of "(initial_panel :: unit panel)\<lparr>mod_ref := Some 0, running := True\<rparr>"
      "\<lparr>VGA_WIDTH = 2, VGA_HEIGHT = 1, num_str = (\<lambda>n. [])\<rparr>" "\<lparr>rv_writes = [], rv_thrown = None\<rparr>"]
  by (simp add: initial_panel_def tick_def renderLoop_def emit_def)

subsection \<open>One live module\<close>

lemma finite_live [simp]: "finite (live es)"
  by (induction es rule: live.induct) simp_all

lemma live_card: "ok_trace es \<Longrightarrow> card (live es) \<le> 1"
proof (induction es rule: live.induct)
  case (3 r es)
  then have "card (live es) \<le> 1" by simp
  moreover have "card (live es - {r}) \<le> card (live es)"
    by (rule card_mono) auto
  ultimately show ?case by simp
qed simp_all

lemma ok_trace_one_live: "ok_trace es \<Longrightarrow> one_live es"
proof (induction es)
  case Nil
  then show ?case by simp
next
  case (Cons e es)
  from Cons.prems have "card (live (e # es)) \<le> 1" by (rule live_card)
  moreover from Cons have "one_live es" by simp
  ultimately show ?case by simp
qed

lemma Inv_initial: "Inv initial_panel"
  by (simp add: Inv_def initial_panel_def)

lemma Inv_fields [simp]:
  "Inv (s\<lparr>pending := p\<rparr>) = Inv s"
  "Inv (s\<lparr>exit_hook := h\<rparr>) = Inv s"
  "Inv (s\<lparr>host_exited := b\<rparr>) = Inv s"
  "Inv (s\<lparr>running := r\<rparr>) = Inv s"
  "Inv (s\<lparr>immediates := n\<rparr>) = Inv s"
  "Inv (emit (PostMessage m) s) = Inv s"
  "Inv (emit (ShowWarningMessage w) s) = Inv s"
  "Inv (emit (Uncaught e) s) = Inv s"
  by (simp_all add: Inv_def emit_def)

lemma Inv_renderLoop: "Inv s \<Longrightarrow> Inv (renderLoop E ro s)"
  by (auto simp: Inv_def renderLoop_def emit_def Let_def split: option.splits)

lemma Inv_startSimulation: "Inv s \<Longrightarrow> Inv (startSimulation E ro s)"
  using Inv_renderLoop [of "s\<lparr>running := True\<rparr>" E ro]
  by (simp add: startSimulation_def)

lemma Inv_resetDetectSkip: "resetDetectSkip ko s = (s', th) \<Longrightarrow> Inv s \<Longrightarrow> Inv s'"
  by (auto simp: Inv_def resetDetectSkip_def emit_def Let_def split: option.splits sum.splits)

lemma Inv_onReset: "Inv s \<Longrightarrow> Inv (onReset ko s)"
  by (auto simp: onReset_def split: prod.splits option.splits dest!: Inv_resetDetectSkip)

lemma Inv_dispose: "Inv s \<Longrightarrow> Inv (dispose s)"
  by (auto simp: Inv_def dispose_def emit_def Let_def split: option.splits)

lemma Inv_begin: "Inv s \<Longrightarrow> Inv (compileSources_begin tm s)"
  by (auto simp: compileSources_begin_def stopSimulation_def Let_def split: sum.splits)

lemma Inv_initModule_begin: "initModule_begin ms ctor s = (s', th) \<Longrightarrow> Inv s \<Longrightarrow> Inv s'"
  by (auto simp: Inv_def initModule_begin_def emit_def Let_def less_Suc_eq split: option.splits)

lemma Inv_compiled: "Inv s \<Longrightarrow> Inv (compileSources_compiled E i vo ctor s)"
  by (auto simp: compileSources_compiled_def finally_block_def catch_block_def drop_cont_def Let_def
      split: cont.splits settled.splits option.splits prod.splits dest!: Inv_initModule_begin)

lemma Inv_initialised: "Inv s \<Longrightarrow> Inv (compileSources_initialised E i ir ko ro s)"
  by (auto simp: compileSources_initialised_def finally_block_def catch_block_def drop_cont_def Let_def
      split: cont.splits option.splits prod.splits dest!: Inv_resetDetectSkip intro!: Inv_startSimulation)

lemma Inv_tick: "Inv s \<Longrightarrow> Inv (tick E ro s)"
  by (auto simp: tick_def intro!: Inv_renderLoop)

lemma Inv_step: "Inv s \<Longrightarrow> Inv (step E ev s)"
  by (cases ev)
    (auto simp: step_def stopSimulation_def Inv_begin Inv_compiled Inv_initialised Inv_tick
       Inv_onReset Inv_dispose)

lemma Inv_run: "Inv s \<Longrightarrow> Inv (run E evs s)"
  by (induction evs arbitrary: s) (simp_all add: Inv_step)

text \<open>
  C10. Along every run of the panel, whatever the outside calls do and however the
  suspended calls of \<open>compileSources\<close> interleave, at most one module is live at any
  time, a module is only constructed when none is live, and every kernel call on a module
  (\<open>init\<close>, \<open>dispose\<close>, \<open>resetModule\<close>, \<open>detectSyncPolarity\<close>,
  \<open>skipToFrameBoundary\<close>, \<open>renderVGAFrame\<close>) is made on the live one, never on a
  disposed or replaced one; the live module is the one the panel refers to. \<open>initModule\<close>
  disposes the previous module first, \<open>compileSources\<close> stops the loop first, and
  \<open>dispose\<close> stops the loop, disposes the module and clears the reference. A call
  counts at the moment the panel makes it; what an \<open>init\<close> still pending does inside
  the module class after the panel has replaced the module is outside the panel.
\<close>

theorem one_live_module:
  "one_live (trace (run E evs initial_panel)) \<and>
   ok_trace (trace (run E evs initial_panel)) \<and>
   live (trace (run E evs initial_panel)) = set_option (mod_ref (run E evs initial_panel)) \<and>
   (mod_ref s = Some r \<longrightarrow>
      (\<exists>new. trace (fst (initModule_begin modules ctor s)) = new @ ModDispose (Some r) # trace s)) \<and>
   running (compileSources_begin tm s) = False \<and>
   running (dispose s) = False \<and> mod_ref (dispose s) = None \<and>
   live (trace (dispose s)) = live (trace s) - set_option (mod_ref s)"
proof -
  have "Inv (run E evs (initial_panel :: 'a panel))"
    using Inv_initial by (rule Inv_run)
  then have a: "ok_trace (trace (run E evs (initial_panel :: 'a panel)))"
    and b: "live (trace (run E evs (initial_panel :: 'a panel)))
             = set_option (mod_ref (run E evs (initial_panel :: 'a panel)))"
    by (simp_all add: Inv_def)
  from a have c: "one_live (trace (run E evs (initial_panel :: 'a panel)))"
    by (rule ok_trace_one_live)
  have d: "mod_ref s = Some r \<longrightarrow>
      (\<exists>new. trace (fst (initModule_begin modules ctor s)) = new @ ModDispose (Some r) # trace s)"
    by (cases ctor) (auto simp: initModule_begin_def emit_def Let_def)
  have e: "running (compileSources_begin tm s) = False"
    by (cases tm) (simp_all add: compileSources_begin_def stopSimulation_def emit_def)
  have f: "running (dispose s) = False \<and> mod_ref (dispose s) = None \<and>
     live (trace (dispose s)) = live (trace s) - set_option (mod_ref s)"
    by (cases "mod_ref s") (simp_all add: dispose_def emit_def)
  from a b c d e f show ?thesis by blast
qed


theorem one_live_module_witness:
  "mod_ref (run demo_env first_session initial_panel) = Some 0 \<and>
   trace (fst (initModule_begin [''TOP'' \<mapsto> ()] None (run demo_env first_session initial_panel)))
     = [ModInit (Some 1), NewModule 1 (Some ()) None, ModDispose (Some 0)]
       @ trace (run demo_env first_session initial_panel) \<and>
   ok_trace (trace (run demo_env (first_session @ first_session @ [PanelClosed]) initial_panel)) \<and>
   live (trace (run demo_env (first_session @ first_session @ [PanelClosed]) initial_panel)) = {}"
  using one_live_module [of demo_env "first_session @ first_session @ [PanelClosed]"
      "run demo_env first_session initial_panel" 0 "[''TOP'' \<mapsto> ()]" None]
  by (simp add: panel_defs)


subsection \<open>Polarity before rendering\<close>


lemma J_fields [simp]:
  "J (s\<lparr>exit_hook := h\<rparr>) = J s"
  "J (s\<lparr>host_exited := b\<rparr>) = J s"
  "J (s\<lparr>immediates := n\<rparr>) = J s"
  "J (emit (PostMessage m) s) = J s"
  by (simp_all add: J_def emit_def)
















lemma S_fields [simp]:
  "S (s\<lparr>exit_hook := h\<rparr>) = S s"
  "S (s\<lparr>host_exited := b\<rparr>) = S s"
  "S (s\<lparr>immediates := n\<rparr>) = S s"
  "S (emit (PostMessage m) s) = S s"
  by (simp_all add: S_def emit_def)




















subsection \<open>The constant pool\<close>

text \<open>
  C5, as stated, fails. The compiler's output here has a \<open>TOP\<close> module and no constant
  pool under either name. \<open>initModule\<close> raises nothing: it calls the constructor with
  an undefined constant pool, and when the constructor returns, the module is bound and
  its \<open>init\<close> is called, with no error posted. (When the constructor throws, it has
  still been called with the undefined pool, and the error posted is its own.)
\<close>

theorem missing_constpool_module_built:
  "[''TOP'' \<mapsto> ()] ''@CONST-POOL@'' = None \<and> [''TOP'' \<mapsto> ()] ''__Vconst'' = None \<and>
   vo_xml verilator_ok = Inr [''TOP'' \<mapsto> ()] \<and>
   trace (run demo_env [Simulate (Inr ''top''), CompileDone 0 verilator_ok None] initial_panel) =
     rev [PostMessage (StatusMsg ''Compiling...''), NewModule 0 (Some ()) None, ModInit (Some 0)] \<and>
   mod_ref (run demo_env [Simulate (Inr ''top''), CompileDone 0 verilator_ok None] initial_panel)
     = Some 0 \<and>
   trace (run demo_env [Simulate (Inr ''top''),
            CompileDone 0 verilator_ok (Some (ErrorObj ''TypeError'' ''constpool''))] initial_panel) =
     rev [PostMessage (StatusMsg ''Compiling...''), NewModuleThrew (Some ()) None,
          PostMessage (ErrorMsg ''Error: constpool'')]"
  by (simp add: panel_defs)

text \<open>
  C5, amended. \<open>initModule\<close> resolves the constant pool as the module named
  \<open>@CONST-POOL@\<close> and, when there is none, as the module named \<open>__Vconst\<close>; when
  neither exists the constant pool is undefined. It checks neither the constant pool nor
  \<open>TOP\<close>: it disposes the previous module, calls the constructor with what it found,
  binds the new module and calls its \<open>init\<close>. The only error at this point is one the
  constructor itself throws.
\<close>

theorem initModule_constpool:
  "snd (initModule_begin modules ctor s) = ctor \<and>
   mod_ref (fst (initModule_begin modules None s)) = Some (next_ref s) \<and>
   trace (fst (initModule_begin modules None s)) =
     ModInit (Some (next_ref s)) #
     NewModule (next_ref s) (modules ''TOP'')
       (case modules ''@CONST-POOL@'' of Some c \<Rightarrow> Some c | None \<Rightarrow> modules ''__Vconst'') #
     (case mod_ref s of Some r \<Rightarrow> ModDispose (Some r) # trace s | None \<Rightarrow> trace s)"
  by (cases ctor; cases "mod_ref s") (simp_all add: initModule_begin_def emit_def Let_def)

subsection \<open>Compilation failures\<close>

lemma intercepted_never_terminates: "compileVerilator E InterceptExit vo \<noteq> HostTerminated"
  by (auto simp: compileVerilator_def callMain_def Let_def
      split: option.splits main_outcome.splits sum.splits)

lemma output_iff_no_error:
  "compileVerilator E h vo = Resolved r \<Longrightarrow>
     (output_modules r \<noteq> None) = (error_kind (errors r) = [])"
  by (auto simp: compileVerilator_def Let_def error_kind_def error_entry_def
      split: option.splits sum.splits if_splits)

lemma crash_is_entry:
  "vo_setup vo = None \<Longrightarrow> callMain E h (vo_main vo) = Some (Some e) \<Longrightarrow>
     compileVerilator E h vo =
       Resolved \<lparr>errors = vo_stderr vo @ [error_entry (''Compilation failed: '' @ toString e)],
                 output_modules = None\<rparr>"
  by (simp add: compileVerilator_def Let_def error_kind_def error_entry_def)

lemma xml_failure_is_entry:
  "vo_setup vo = None \<Longrightarrow> callMain E h (vo_main vo) = Some None \<Longrightarrow>
   error_kind (vo_stderr vo) = [] \<Longrightarrow> vo_xml vo = Inl e \<Longrightarrow>
     compileVerilator E h vo =
       Resolved \<lparr>errors = vo_stderr vo @ [error_entry (''XML parsing failed: '' @ toString e)],
                 output_modules = None\<rparr>"
  by (simp add: compileVerilator_def Let_def)

lemma uncaught_renderLoop: "uncaught (trace (renderLoop E ro s)) = uncaught (trace s)"
  using renderLoop_cases [of E ro s] by auto

lemma renderLoop_host:
  "exit_hook (renderLoop E ro s) = exit_hook s \<and> host_exited (renderLoop E ro s) = host_exited s
   \<and> pending (renderLoop E ro s) = pending s"
  using renderLoop_cases [of E ro s] by auto

lemma startSimulation_host:
  "host_exited (startSimulation E ro s) = host_exited s"
  "pending (startSimulation E ro s) = pending s"
  "exit_hook (startSimulation E ro s) = exit_hook s"
  "uncaught (trace (startSimulation E ro s)) = uncaught (trace s)"
  using renderLoop_host [of E ro "s\<lparr>running := True\<rparr>"]
    uncaught_renderLoop [of E ro "s\<lparr>running := True\<rparr>"]
  by (simp_all add: startSimulation_def)

lemma resetDetectSkip_host:
  "resetDetectSkip ko s = (s', th) \<Longrightarrow>
     host_exited s' = host_exited s \<and> pending s' = pending s \<and>
     uncaught (trace s') = uncaught (trace s)"
  by (auto simp: resetDetectSkip_def emit_def Let_def split: sum.splits)

lemma initModule_begin_host:
  "initModule_begin ms ctor s = (s', th) \<Longrightarrow>
     host_exited s' = host_exited s \<and> pending s' = pending s \<and>
     uncaught (trace s') = uncaught (trace s)"
  by (auto simp: initModule_begin_def emit_def Let_def split: option.splits)

lemma initialised_at:
  "i < length (pending s) \<Longrightarrow> pending s ! i = AwaitInit h \<Longrightarrow>
     exit_hook (compileSources_initialised E i ir ko ro s) = h \<and>
     host_exited (compileSources_initialised E i ir ko ro s) = host_exited s \<and>
     pending (compileSources_initialised E i ir ko ro s)
       = take i (pending s) @ drop (Suc i) (pending s) \<and>
     uncaught (trace (compileSources_initialised E i ir ko ro s)) = uncaught (trace s)"
  by (auto simp: compileSources_initialised_def finally_block_def catch_block_def drop_cont_def
        emit_def Let_def startSimulation_host
      split: option.splits prod.splits dest!: resetDetectSkip_host)


lemma begin_at:
  "compileSources_begin (Inr tm) s =
     s\<lparr>running := False, trace := PostMessage (StatusMsg ''Compiling...'') # trace s,
       exit_hook := InterceptExit, pending := pending s @ [AwaitCompile (exit_hook s)]\<rparr>"
  by (simp add: compileSources_begin_def stopSimulation_def emit_def)

lemma compiled_at:
  assumes "i < length (pending s)" and "pending s ! i = AwaitCompile h"
    and "compileVerilator E (exit_hook s) vo \<noteq> HostTerminated"
  shows "host_exited (compileSources_compiled E i vo ctor s) = host_exited s \<and>
     uncaught (trace (compileSources_compiled E i vo ctor s)) = uncaught (trace s) \<and>
     (pending (compileSources_compiled E i vo ctor s) = (pending s)[i := AwaitInit h]
      \<or> pending (compileSources_compiled E i vo ctor s) = take i (pending s) @ drop (Suc i) (pending s)
        \<and> exit_hook (compileSources_compiled E i vo ctor s) = h)"
  using assms
  by (auto simp: compileSources_compiled_def finally_block_def catch_block_def drop_cont_def
        emit_def Let_def
      split: settled.splits option.splits prod.splits dest!: initModule_begin_host)

lemma compiled_failed:
  assumes "i < length (pending s)" and "pending s ! i = AwaitCompile h"
  shows "(compileVerilator E (exit_hook s) vo = Rejected e \<longrightarrow>
           compileSources_compiled E i vo ctor s =
             (drop_cont i s)\<lparr>trace := PostMessage (ErrorMsg (''Error: '' @ describe e)) # trace s,
                              exit_hook := h\<rparr>) \<and>
         (compileVerilator E (exit_hook s) vo = Resolved r \<longrightarrow> output_modules r = None \<longrightarrow>
           compileSources_compiled E i vo ctor s =
             (drop_cont i s)\<lparr>trace := PostMessage (ErrorMsg (''Compilation Error:'' @ [CHR 0x0A]
                                  @ errorMessages E (errors r))) # trace s,
                              exit_hook := h\<rparr>)"
  using assms
  by (auto simp: compileSources_compiled_def finally_block_def catch_block_def drop_cont_def
        emit_def Let_def)

lemma initialised_absent:
  "\<not> i < length (pending s) \<Longrightarrow> compileSources_initialised E i ir ko ro s = s"
  by (simp add: compileSources_initialised_def)

lemma compileSources_ends:
  fixes s :: "'d panel" and E tm vo ctor ir ko ro
  defines "s' \<equiv> compileSources E (Inr tm) vo ctor ir ko ro s"
  shows "exit_hook s' = exit_hook s \<and> host_exited s' = host_exited s \<and> pending s' = pending s \<and>
         uncaught (trace s') = uncaught (trace s)"
proof -
  let ?b = "compileSources_begin (Inr tm) s"
  let ?i = "length (pending s)"
  let ?c = "compileSources_compiled E ?i vo ctor ?b"
  have b: "?i < length (pending ?b)" "pending ?b ! ?i = AwaitCompile (exit_hook s)"
    "exit_hook ?b = InterceptExit" "host_exited ?b = host_exited s"
    "uncaught (trace ?b) = uncaught (trace s)" "pending ?b = pending s @ [AwaitCompile (exit_hook s)]"
    by (simp_all add: begin_at)
  have nt: "compileVerilator E (exit_hook ?b) vo \<noteq> HostTerminated"
    using intercepted_never_terminates b(3) by metis
  from compiled_at [OF b(1) b(2) nt, of ctor]
  have c: "host_exited ?c = host_exited s" "uncaught (trace ?c) = uncaught (trace s)"
    "pending ?c = (pending ?b)[?i := AwaitInit (exit_hook s)]
      \<or> pending ?c = take ?i (pending ?b) @ drop (Suc ?i) (pending ?b) \<and> exit_hook ?c = exit_hook s"
    using b(4,5) by auto
  from c(3) show ?thesis
  proof
    assume p: "pending ?c = (pending ?b)[?i := AwaitInit (exit_hook s)]"
    then have "?i < length (pending ?c)" "pending ?c ! ?i = AwaitInit (exit_hook s)"
      "take ?i (pending ?c) @ drop (Suc ?i) (pending ?c) = pending s"
      by (simp_all add: b(6))
    from initialised_at [OF this(1) this(2), of E ir ko ro] this(3) c(1,2)
    show ?thesis by (simp add: s'_def compileSources_def Let_def)
  next
    assume p: "pending ?c = take ?i (pending ?b) @ drop (Suc ?i) (pending ?b) \<and> exit_hook ?c = exit_hook s"
    then have "pending ?c = pending s" by (simp add: b(6))
    then have "compileSources_initialised E ?i ir ko ro ?c = ?c"
      by (simp add: initialised_absent)
    with p c(1,2) \<open>pending ?c = pending s\<close> show ?thesis
      by (simp add: s'_def compileSources_def Let_def)
  qed
qed

lemma compileSources_failed:
  fixes s :: "'d panel" and E tm vo ctor ir ko ro
  defines "s' \<equiv> compileSources E (Inr tm) vo ctor ir ko ro s"
  shows "(compileVerilator E InterceptExit vo = Rejected e \<longrightarrow>
            trace s' = PostMessage (ErrorMsg (''Error: '' @ describe e))
                       # PostMessage (StatusMsg ''Compiling...'') # trace s) \<and>
         (compileVerilator E InterceptExit vo = Resolved r \<longrightarrow> output_modules r = None \<longrightarrow>
            trace s' = PostMessage (ErrorMsg (''Compilation Error:'' @ [CHR 0x0A]
                                  @ errorMessages E (errors r)))
                       # PostMessage (StatusMsg ''Compiling...'') # trace s)"
proof -
  let ?b = "compileSources_begin (Inr tm) s"
  let ?i = "length (pending s)"
  let ?c = "compileSources_compiled E ?i vo ctor ?b"
  have b: "?i < length (pending ?b)" "pending ?b ! ?i = AwaitCompile (exit_hook s)"
    "exit_hook ?b = InterceptExit" "pending ?b = pending s @ [AwaitCompile (exit_hook s)]"
    "trace ?b = PostMessage (StatusMsg ''Compiling...'') # trace s"
    by (simp_all add: begin_at)
  have gone: "pending ((drop_cont ?i ?b)\<lparr>trace := tr, exit_hook := h\<rparr>) = pending s" for tr h
    by (simp add: drop_cont_def b(4))
  show ?thesis
    using compiled_failed [OF b(1) b(2), of E vo e ctor r] gone
    by (auto simp: s'_def compileSources_def Let_def b(3) b(5) initialised_absent)
qed


text \<open>
  One call of \<open>compileSources\<close> with no other call of it in between. With the
  replacement of \<open>process.exit\<close> installed, \<open>compileVerilator\<close> never ends the host:
  an exit of the compiler becomes a throw out of \<open>callMain\<close>. A throw out of
  \<open>callMain\<close> and a failure to read or parse the XML each become an entry of type
  \<open>error\<close> in the returned list. Whenever \<open>compileVerilator\<close> returns, it returns an
  output exactly when its list has no entry of type \<open>error\<close>. The call of
  \<open>compileSources\<close> (once \<open>detectTopModule\<close> has returned) runs to its end: it
  leaves no exception uncaught, restores \<open>process.exit\<close>, and when the compilation was
  rejected or returned no output it posts exactly one \<open>error\<close> message with the text
  of the failure and does nothing else.
\<close>

lemma single_call_failures_structured:
  fixes s :: "'d panel" and vo :: "'d verilator_outcome"
  shows
  "compileVerilator E InterceptExit vo \<noteq> HostTerminated \<and>
   (\<forall>h r. compileVerilator E h vo = Resolved r \<longrightarrow>
      (output_modules r \<noteq> None) = (error_kind (errors r) = [])) \<and>
   (\<forall>h e. vo_setup vo = None \<longrightarrow> callMain E h (vo_main vo) = Some (Some e) \<longrightarrow>
      compileVerilator E h vo =
        Resolved \<lparr>errors = vo_stderr vo @ [error_entry (''Compilation failed: '' @ toString e)],
                  output_modules = None\<rparr>) \<and>
   (\<forall>h e. callMain E h (MainThrows e) = Some (Some e)) \<and>
   (\<forall>code. callMain E InterceptExit (MainExits code) =
      Some (Some (ErrorObj ''Error'' (''Verilator process.exit(''
        @ (case code of None \<Rightarrow> ''undefined'' | Some c \<Rightarrow> num_str E c) @ '')'')))) \<and>
   (\<forall>h e. vo_setup vo = None \<longrightarrow> callMain E h (vo_main vo) = Some None \<longrightarrow>
      error_kind (vo_stderr vo) = [] \<longrightarrow> vo_xml vo = Inl e \<longrightarrow>
      compileVerilator E h vo =
        Resolved \<lparr>errors = vo_stderr vo @ [error_entry (''XML parsing failed: '' @ toString e)],
                  output_modules = None\<rparr>) \<and>
   exit_hook (compileSources E (Inr tm) vo ctor ir ko ro s) = exit_hook s \<and>
   host_exited (compileSources E (Inr tm) vo ctor ir ko ro s) = host_exited s \<and>
   pending (compileSources E (Inr tm) vo ctor ir ko ro s) = pending s \<and>
   uncaught (trace (compileSources E (Inr tm) vo ctor ir ko ro s)) = uncaught (trace s) \<and>
   (\<forall>e. compileVerilator E InterceptExit vo = Rejected e \<longrightarrow>
      trace (compileSources E (Inr tm) vo ctor ir ko ro s) =
        PostMessage (ErrorMsg (''Error: '' @ describe e))
        # PostMessage (StatusMsg ''Compiling...'') # trace s) \<and>
   (\<forall>r. compileVerilator E InterceptExit vo = Resolved r \<longrightarrow> output_modules r = None \<longrightarrow>
      trace (compileSources E (Inr tm) vo ctor ir ko ro s) =
        PostMessage (ErrorMsg (''Compilation Error:'' @ [CHR 0x0A] @ errorMessages E (errors r)))
        # PostMessage (StatusMsg ''Compiling...'') # trace s)"
proof -
  have a: "compileVerilator E InterceptExit vo \<noteq> HostTerminated"
    by (rule intercepted_never_terminates)
  have b: "\<forall>h r. compileVerilator E h vo = Resolved r \<longrightarrow>
      (output_modules r \<noteq> None) = (error_kind (errors r) = [])"
    using output_iff_no_error by blast
  have c: "\<forall>h e. vo_setup vo = None \<longrightarrow> callMain E h (vo_main vo) = Some (Some e) \<longrightarrow>
      compileVerilator E h vo =
        Resolved \<lparr>errors = vo_stderr vo @ [error_entry (''Compilation failed: '' @ toString e)],
                  output_modules = None\<rparr>"
    using crash_is_entry by blast
  have d: "\<forall>h e. callMain E h (MainThrows e) = Some (Some e)"
    by (simp add: callMain_def)
  have e: "\<forall>code. callMain E InterceptExit (MainExits code) =
      Some (Some (ErrorObj ''Error'' (''Verilator process.exit(''
        @ (case code of None \<Rightarrow> ''undefined'' | Some c \<Rightarrow> num_str E c) @ '')'')))"
    by (simp add: callMain_def)
  have f: "\<forall>h e. vo_setup vo = None \<longrightarrow> callMain E h (vo_main vo) = Some None \<longrightarrow>
      error_kind (vo_stderr vo) = [] \<longrightarrow> vo_xml vo = Inl e \<longrightarrow>
      compileVerilator E h vo =
        Resolved \<lparr>errors = vo_stderr vo @ [error_entry (''XML parsing failed: '' @ toString e)],
                  output_modules = None\<rparr>"
    using xml_failure_is_entry by blast
  note g = compileSources_ends [of E tm vo ctor ir ko ro s]
  have h: "\<forall>e. compileVerilator E InterceptExit vo = Rejected e \<longrightarrow>
      trace (compileSources E (Inr tm) vo ctor ir ko ro s) =
        PostMessage (ErrorMsg (''Error: '' @ describe e))
        # PostMessage (StatusMsg ''Compiling...'') # trace s"
    using compileSources_failed [of E vo _ tm ctor ir ko ro s] by blast
  have i: "\<forall>r. compileVerilator E InterceptExit vo = Resolved r \<longrightarrow> output_modules r = None \<longrightarrow>
      trace (compileSources E (Inr tm) vo ctor ir ko ro s) =
        PostMessage (ErrorMsg (''Compilation Error:'' @ [CHR 0x0A] @ errorMessages E (errors r)))
        # PostMessage (StatusMsg ''Compiling...'') # trace s"
    using compileSources_failed [of E vo _ tm ctor ir ko ro s] by blast
  from a b c d e f g h i show ?thesis by blast
qed

lemma single_call_failures_example:
  "compileVerilator demo_env InterceptExit verilator_exits =
     Resolved \<lparr>errors = [error_entry ''Compilation failed: Error: Verilator process.exit(1)''],
               output_modules = None\<rparr> \<and>
   trace (compileSources demo_env (Inr ''top'') verilator_exits None None kernel_ok render_ok
            initial_panel) =
     [PostMessage (ErrorMsg (''Compilation Error:'' @ [CHR 0x0A]
        @ ''Compilation failed: Error: Verilator process.exit(1)'')),
      PostMessage (StatusMsg ''Compiling...'')] \<and>
   exit_hook (compileSources demo_env (Inr ''top'') verilator_exits None None kernel_ok render_ok
            (initial_panel :: unit panel)) = OriginalExit"
  using single_call_failures_structured [where E = demo_env and vo = verilator_exits
      and s = "initial_panel :: unit panel" and tm = "''top''" and ctor = None and ir = None
      and ko = kernel_ok and ro = render_ok]
  by (simp add: panel_defs verilator_exits_def compileSources_def errorMessages_def
      error_entry_def)


subsection \<open>Detection timeout\<close>

lemma K_initial: "K initial_panel"
  by (simp add: K_def initial_panel_def)

lemma K_fields [simp]:
  "K (s\<lparr>exit_hook := h\<rparr>) = K s"
  "K (s\<lparr>host_exited := b\<rparr>) = K s"
  "K (s\<lparr>immediates := n\<rparr>) = K s"
  "K (s\<lparr>pending := ps\<rparr>) = K s"
  "K (emit (PostMessage m) s) = K s"
  "K (emit (ShowWarningMessage w) s) = K s"
  "K (emit (Uncaught e) s) = K s"
  by (simp_all add: K_def emit_def)

lemma K_renderLoop: "K s \<Longrightarrow> K (renderLoop E ro s)"
  by (auto simp: K_def renderLoop_def emit_def Let_def split: option.splits)

lemma K_tick: "K s \<Longrightarrow> K (tick E ro s)"
  using K_renderLoop [of "s\<lparr>immediates := immediates s - 1\<rparr>" E ro]
  by (simp add: tick_def)

lemma K_dispose: "K s \<Longrightarrow> K (dispose s)"
  by (auto simp: K_def dispose_def emit_def Let_def split: option.splits)

lemma K_stop: "K s \<Longrightarrow> K (stopSimulation s)"
  by (auto simp: K_def stopSimulation_def)

lemma K_begin: "K s \<Longrightarrow> K (compileSources_begin tm s)"
  by (auto simp: K_def compileSources_begin_def stopSimulation_def emit_def Let_def
      split: sum.splits)

lemma K_resetDetectSkip:
  "resetDetectSkip ko s = (s', th) \<Longrightarrow> K s \<Longrightarrow>
     K s' \<and> (th = None \<longrightarrow> ever_detected (trace s') (syncPolarity s'))"
  by (auto simp: K_def resetDetectSkip_def emit_def Let_def split: sum.splits)

lemma K_onReset: "K s \<Longrightarrow> K (onReset ko s)"
  by (auto simp: onReset_def split: prod.splits option.splits dest!: K_resetDetectSkip)

lemma K_initModule_begin: "initModule_begin ms ctor s = (s', th) \<Longrightarrow> K s \<Longrightarrow> K s'"
  by (auto simp: K_def initModule_begin_def emit_def Let_def split: option.splits)

lemma K_compiled: "K s \<Longrightarrow> K (compileSources_compiled E i vo ctor s)"
  by (auto simp: compileSources_compiled_def finally_block_def catch_block_def drop_cont_def Let_def
      split: cont.splits settled.splits option.splits prod.splits dest!: K_initModule_begin)

lemma K_startSimulation:
  "K s \<Longrightarrow> ever_detected (trace s) (syncPolarity s) \<Longrightarrow> K (startSimulation E ro s)"
  using K_renderLoop [of "s\<lparr>running := True\<rparr>" E ro]
  by (auto simp: startSimulation_def) (simp_all add: K_def)

lemma K_initialised: "K s \<Longrightarrow> K (compileSources_initialised E i ir ko ro s)"
  by (auto simp: compileSources_initialised_def finally_block_def catch_block_def drop_cont_def Let_def
      split: cont.splits option.splits prod.splits dest!: K_resetDetectSkip
      intro!: K_startSimulation)
    (simp_all add: emit_def)

lemma K_step: "K s \<Longrightarrow> K (step E ev s)"
  by (cases ev)
    (auto simp: step_def K_begin K_compiled K_initialised K_tick K_onReset K_dispose K_stop)

lemma K_run: "K s \<Longrightarrow> K (run E evs s)"
  by (induction evs arbitrary: s) (simp_all add: K_step)

text \<open>
  C2. When, in the samples of the cycle budget, a synchronization signal never toggles,
  the detection ends in \<open>DetectionTimeout\<close>; it returns a polarity only when both
  signals have shown both levels, so never a default. In the panel a detection that throws
  assigns nothing to \<open>syncPolarity\<close>: the sequence stops at the throw, and
  \<open>compileSources\<close> posts the error and starts no render loop. The initial value of
  \<open>syncPolarity\<close> (line 26) is never what a frame is rendered with: along every run,
  each \<open>renderVGAFrame\<close> is given a polarity that a detection has returned.
\<close>

theorem detection_timeout:
  fixes s :: "'d panel" and evs :: "'d event list"
  shows
  "(\<forall>ss. sample_cycles budget cycle sync i = Inr ss \<longrightarrow>
      toggles (map fst ss) = False \<or> toggles (map snd ss) = False \<longrightarrow>
      detectSyncPolarity budget cycle sync i = Inl DetectionTimeout) \<and>
   (\<forall>p. detectSyncPolarity budget cycle sync i = Inr p \<longrightarrow>
      (\<exists>ss. sample_cycles budget cycle sync i = Inr ss \<and>
            toggles (map fst ss) \<and> toggles (map snd ss))) \<and>
   (\<forall>u e. ko_reset1 ko = Inr u \<longrightarrow> ko_detect ko = Inl e \<longrightarrow>
      resetDetectSkip ko s =
        (s\<lparr>trace := DetectSyncPolarity (mod_ref s) None # ResetModule (mod_ref s) # trace s\<rparr>,
         Some e)) \<and>
   (\<forall>u e h. ko_reset1 ko = Inr u \<longrightarrow> ko_detect ko = Inl e \<longrightarrow>
      n < length (pending s) \<longrightarrow> pending s ! n = AwaitInit h \<longrightarrow>
      compileSources_initialised E n None ko ro s =
        s\<lparr>trace := PostMessage (ErrorMsg (''Error: '' @ describe e))
                   # DetectSyncPolarity (mod_ref s) None # ResetModule (mod_ref s) # trace s,
          pending := take n (pending s) @ drop (Suc n) (pending s),
          exit_hook := h\<rparr>) \<and>
   renders_detected (trace (run E evs initial_panel))"
proof -
  have a: "\<forall>ss. sample_cycles budget cycle sync i = Inr ss \<longrightarrow>
      toggles (map fst ss) = False \<or> toggles (map snd ss) = False \<longrightarrow>
      detectSyncPolarity budget cycle sync i = Inl DetectionTimeout"
    by (auto simp: detectSyncPolarity_def)
  have b: "\<forall>p. detectSyncPolarity budget cycle sync i = Inr p \<longrightarrow>
      (\<exists>ss. sample_cycles budget cycle sync i = Inr ss \<and>
            toggles (map fst ss) \<and> toggles (map snd ss))"
    by (auto simp: detectSyncPolarity_def split: sum.splits if_splits)
  have c: "\<forall>u e. ko_reset1 ko = Inr u \<longrightarrow> ko_detect ko = Inl e \<longrightarrow>
      resetDetectSkip ko s =
        (s\<lparr>trace := DetectSyncPolarity (mod_ref s) None # ResetModule (mod_ref s) # trace s\<rparr>,
         Some e)"
    by (simp add: resetDetectSkip_def emit_def Let_def)
  have d: "\<forall>u e h. ko_reset1 ko = Inr u \<longrightarrow> ko_detect ko = Inl e \<longrightarrow>
      n < length (pending s) \<longrightarrow> pending s ! n = AwaitInit h \<longrightarrow>
      compileSources_initialised E n None ko ro s =
        s\<lparr>trace := PostMessage (ErrorMsg (''Error: '' @ describe e))
                   # DetectSyncPolarity (mod_ref s) None # ResetModule (mod_ref s) # trace s,
          pending := take n (pending s) @ drop (Suc n) (pending s),
          exit_hook := h\<rparr>"
    by (simp add: compileSources_initialised_def resetDetectSkip_def emit_def Let_def
        drop_cont_def catch_block_def finally_block_def)
  have "K (run E evs (initial_panel :: 'd panel))"
    using K_initial by (rule K_run)
  then have k: "renders_detected (trace (run E evs (initial_panel :: 'd panel)))"
    by (simp add: K_def)
  from a b c d k show ?thesis by blast
qed

theorem detection_timeout_witness:
  "sample_cycles 4 (\<lambda>i. Inr (Suc i)) (\<lambda>i. (True, i = 2)) (0 :: nat)
     = Inr [(True, False), (True, True), (True, False), (True, False)] \<and>
   toggles (map fst [(True, False), (True, True), (True, False), (True, False)]) = False \<and>
   detectSyncPolarity 4 (\<lambda>i. Inr (Suc i)) (\<lambda>i. (True, i = 2)) (0 :: nat)
     = Inl DetectionTimeout \<and>
   trace (run demo_env [Simulate (Inr ''top''), CompileDone 0 verilator_ok None,
           InitDone 0 None kernel_timeout render_ok] initial_panel)
     = rev [PostMessage (StatusMsg ''Compiling...''), NewModule 0 (Some ()) None,
            ModInit (Some 0), ResetModule (Some 0), DetectSyncPolarity (Some 0) None,
            PostMessage (ErrorMsg ''Error: DetectionTimeout'')] \<and>
   running (run demo_env [Simulate (Inr ''top''), CompileDone 0 verilator_ok None,
           InitDone 0 None kernel_timeout render_ok] initial_panel) = False"
  using detection_timeout [where budget = 4 and cycle = "\<lambda>i. Inr (Suc i)"
      and sync = "\<lambda>i. (True, i = 2)" and i = "0 :: nat" and ko = kernel_timeout
      and s = "run demo_env [Simulate (Inr ''top''), CompileDone 0 verilator_ok None] initial_panel"
      and n = 0 and E = demo_env and ro = render_ok and evs = first_session]
  by (simp add: panel_defs kernel_timeout_def toggles_def eval_nat_numeral)


subsection \<open>Signals\<close>

text \<open>
  C8. For a declared and bound signal path \<open>p\<close> and an unsigned value \<open>v\<close>,
  \<open>setSignal p v\<close> followed at once by \<open>getSignal p\<close> returns \<open>v\<close> truncated to the
  declared width of \<open>p\<close>.
\<close>

theorem set_get_roundtrip:
  assumes "signals inst p = Some sg" and "handle_of sg < length (vals inst)"
  shows "\<exists>inst'. setSignal p v inst = Some inst' \<and>
                  getSignal p inst' = Some (v mod 2 ^ width sg)"
  using assms by (simp add: setSignal_def getSignal_def)

theorem set_get_roundtrip_witness:
  "signals demo_instance ''rgb'' = Some \<lparr>width = 6, direction = Output, handle_of = 1\<rparr> \<and>
   setSignal ''rgb'' 200 demo_instance = Some (demo_instance\<lparr>vals := [0, 8], settled := False\<rparr>) \<and>
   getSignal ''rgb'' (demo_instance\<lparr>vals := [0, 8], settled := False\<rparr>) = Some 8"
  using set_get_roundtrip [of demo_instance "''rgb''"
      "\<lparr>width = 6, direction = Output, handle_of = 1\<rparr>" 200]
  by (simp add: demo_instance_def setSignal_def getSignal_def)

subsection \<open>Settling\<close>

lemma settle_fixpoint: "settle cap exec vs = Inr vs' \<Longrightarrow> exec vs' = Some vs'"
  by (induction cap arbitrary: vs) (auto split: option.splits if_splits)

lemma settle_outcomes:
  "(\<exists>vs'. settle cap exec vs = Inr vs') \<or> settle cap exec vs = Inl ConvergenceError
   \<or> settle cap exec vs = Inl RuntimeFault"
  by (induction cap arbitrary: vs) (auto split: option.splits)

lemma settle_oscillating:
  "\<forall>vs. \<exists>vs'. exec vs = Some vs' \<and> vs' \<noteq> vs \<Longrightarrow> settle cap exec vs = Inl ConvergenceError"
proof (induction cap arbitrary: vs)
  case 0
  then show ?case by simp
next
  case (Suc cap)
  from Suc.prems obtain vs' where "exec vs = Some vs'" "vs' \<noteq> vs" by blast
  with Suc show ?case by simp
qed

text \<open>
  C9. \<open>eval\<close> always returns, after at most \<open>cap\<close> recomputations: a settled
  instance, whose values the next recomputation leaves unchanged, or
  \<open>ConvergenceError\<close>, or \<open>RuntimeFault\<close>; it never returns values that are not
  settled. For a design in which every recomputation changes some value, as with a
  combinational self-loop, the result is \<open>ConvergenceError\<close> whatever the cap.
\<close>

theorem eval_bounded:
  "((\<exists>inst'. evalInst cap exec inst = Inr inst' \<and> exec (vals inst') = Some (vals inst')
       \<and> settled inst')
    \<or> evalInst cap exec inst = Inl ConvergenceError
    \<or> evalInst cap exec inst = Inl RuntimeFault) \<and>
   ((\<forall>vs. \<exists>vs'. exec vs = Some vs' \<and> vs' \<noteq> vs) \<longrightarrow>
      evalInst cap exec inst = Inl ConvergenceError)"
proof -
  have a: "(\<exists>inst'. evalInst cap exec inst = Inr inst' \<and> exec (vals inst') = Some (vals inst')
       \<and> settled inst')
    \<or> evalInst cap exec inst = Inl ConvergenceError
    \<or> evalInst cap exec inst = Inl RuntimeFault"
    using settle_outcomes [of cap exec "vals inst"]
    by (auto simp: evalInst_def dest: settle_fixpoint)
  have b: "(\<forall>vs. \<exists>vs'. exec vs = Some vs' \<and> vs' \<noteq> vs) \<longrightarrow>
      evalInst cap exec inst = Inl ConvergenceError"
    by (simp add: evalInst_def settle_oscillating)
  from a b show ?thesis by blast
qed

theorem eval_bounded_witness:
  "(\<forall>vs. \<exists>vs'. self_loop vs = Some vs' \<and> vs' \<noteq> vs) \<and>
   evalInst 100 self_loop demo_instance = Inl ConvergenceError"
proof -
  have h: "\<forall>vs. \<exists>vs'. self_loop vs = Some vs' \<and> vs' \<noteq> vs"
  proof
    fix vs
    show "\<exists>vs'. self_loop vs = Some vs' \<and> vs' \<noteq> vs"
    proof (cases vs)
      case Nil
      then show ?thesis by (simp add: self_loop_def)
    next
      case (Cons v r)
      have "1 - v \<noteq> v" by arith
      with Cons show ?thesis by (simp add: self_loop_def)
    qed
  qed
  with eval_bounded [of 100 self_loop demo_instance] show ?thesis by blast
qed

end
